theory Spec2Isabelle
  imports Complex_Main
begin

section \<open>The aggregator configuration of csaf\_aggregator (config.go)\<close>

text \<open>
  A shallow embedding of \<^verbatim>\<open>cmd/csaf_aggregator/config.go\<close>. Every function of the
  file is a HOL function of the same name. Pointers that may be nil are options, Go's
  \<^verbatim>\<open>int\<close> is \<open>int\<close> (the file only compares and assigns integers, it never
  computes with them), and an in-place mutation of the receiver returns the new
  configuration.

  Three types of the file come from other packages and are only stored or copied here, so
  they are type parameters: \<open>'f\<close> stands for \<^verbatim>\<open>float64\<close> (the file needs its zero
  value only), \<open>'a\<close> for \<^verbatim>\<open>csaf.AggregatorInfo\<close> and \<open>'k\<close> for the object a
  \<^verbatim>\<open>*crypto.Key\<close> points to. What the file calls in other packages is a parameter of
  the function that calls it: \<^verbatim>\<open>runtime.NumCPU\<close>, \<^verbatim>\<open>AggregatorInfo.Validate\<close>,
  \<^verbatim>\<open>toml.DecodeFile\<close>, \<^verbatim>\<open>os.Open\<close> and \<^verbatim>\<open>crypto.NewKeyFromArmoredReader\<close>.
\<close>

subsection \<open>Constants and data\<close>

definition defaultConfigPath :: string where
  "defaultConfigPath = ''aggregator.toml''"

definition defaultWorkers :: int where
  "defaultWorkers = 10"

definition defaultFolder :: string where
  "defaultFolder = ''/var/www''"

definition defaultWeb :: string where
  "defaultWeb = ''/var/www/html''"

definition defaultDomain :: string where
  "defaultDomain = ''https://example.com''"

text \<open>A non-nil Go \<^verbatim>\<open>error\<close>, with the text its \<^verbatim>\<open>Error()\<close> method returns. A nil
  error is \<open>None\<close> of \<open>error option\<close>.\<close>

datatype error = Error string

record 'f provider =
  Name :: string
  Domain :: string
  Rate :: "'f option"
  Insecure :: "bool option"

text \<open>The struct \<^verbatim>\<open>config\<close>. The field \<open>keyMu\<close> is the state of the mutex: \<open>True\<close>
  while it is held.\<close>

record ('f, 'a, 'k) config =
  Workers :: int
  Folder :: string
  Web :: string
  Domain :: string
  Rate :: "'f option"
  Insecure :: "bool option"
  Aggregator :: 'a
  Providers :: "'f provider list"
  Key :: string
  Passphrase :: "string option"
  keyMu :: bool
  key :: "'k option"
  keyErr :: "error option"

subsection \<open>cryptoKey\<close>

text \<open>
  The world outside the program, as one call of \<open>cryptoKey\<close> finds it: what
  \<^verbatim>\<open>os.Open\<close> answers for a path (an error, or an open file) and what
  \<^verbatim>\<open>crypto.NewKeyFromArmoredReader\<close> answers for an open file (Go's pair of a key
  pointer and an error, neither constrained).
\<close>

record ('file, 'k) world =
  os_Open :: "string \<Rightarrow> error + 'file"
  crypto_NewKeyFromArmoredReader :: "'file \<Rightarrow> 'k option \<times> error option"

text \<open>What a call does besides changing the configuration, in the order it does it.\<close>

datatype event = MuLock | MuUnlock | OsOpen string | KeyParse | FileClose

text \<open>
  A call returns its two results, the configuration as it leaves it, and its events.
  \<^verbatim>\<open>c.keyMu.Lock()\<close> on a held mutex never returns to a caller that runs alone: that
  is the value \<open>None\<close>. The deferred calls run last first: the file is closed, then the
  mutex released.
\<close>

definition cryptoKey ::
  "('file, 'k) world \<Rightarrow> ('f, 'a, 'k) config \<Rightarrow>
     (('k option \<times> error option) \<times> ('f, 'a, 'k) config \<times> event list) option" where
  "cryptoKey w c =
    (if Key c = [] then Some ((None, None), c, [])
     else if keyMu c then None
     else
       let c = c\<lparr>keyMu := True\<rparr> in
       if key c \<noteq> None \<or> keyErr c \<noteq> None then
         Some ((key c, keyErr c), c\<lparr>keyMu := False\<rparr>, [MuLock, MuUnlock])
       else
         (case os_Open w (Key c) of
            Inl e \<Rightarrow>
              let c = c\<lparr>keyErr := Some e\<rparr> in
              Some ((None, keyErr c), c\<lparr>keyMu := False\<rparr>,
                    [MuLock, OsOpen (Key c), MuUnlock])
          | Inr f \<Rightarrow>
              (case crypto_NewKeyFromArmoredReader w f of
                 (k, e) \<Rightarrow>
                   let c = c\<lparr>key := k, keyErr := e\<rparr> in
                   Some ((key c, keyErr c), c\<lparr>keyMu := False\<rparr>,
                         [MuLock, OsOpen (Key c), KeyParse, FileClose, MuUnlock]))))"

text \<open>
  A caller that calls \<open>cryptoKey\<close> once per element of a list of worlds, one call after
  the other on the same configuration: the world may differ from call to call (the key
  file may appear, vanish or change in between). It collects the results and the events.
\<close>

fun cryptoKeyCalls ::
  "('file, 'k) world list \<Rightarrow> ('f, 'a, 'k) config \<Rightarrow>
     (('k option \<times> error option) list \<times> ('f, 'a, 'k) config \<times> event list) option" where
  "cryptoKeyCalls [] c = Some ([], c, [])"
| "cryptoKeyCalls (w # ws) c =
     (case cryptoKey w c of
        None \<Rightarrow> None
      | Some (r, c', t) \<Rightarrow>
          (case cryptoKeyCalls ws c' of
             None \<Rightarrow> None
           | Some (rs, c'', ts) \<Rightarrow> Some (r # rs, c'', t @ ts)))"



subsection \<open>httpClient\<close>

text \<open>
  The parts of \<^verbatim>\<open>net/http\<close>, \<^verbatim>\<open>crypto/tls\<close> and \<^verbatim>\<open>golang.org/x/time/rate\<close> that
  \<open>httpClient\<close> builds: each struct with the fields the function sets, a nil pointer
  being \<open>None\<close>. \<open>rate.NewLimiter (rate.Limit r) b\<close> is the limiter with limit \<open>r\<close>
  and burst \<open>b\<close>. The interface \<^verbatim>\<open>client\<close> has the two implementations the function
  returns: a \<^verbatim>\<open>*http.Client\<close>, and a \<^verbatim>\<open>*limitingClient\<close> with its two fields.
\<close>

record tls_Config =
  InsecureSkipVerify :: bool

record http_Transport =
  TLSClientConfig :: "tls_Config option"

record http_Client =
  Transport :: "http_Transport option"

record 'f rate_Limiter =
  limit :: 'f
  burst :: int

datatype 'f client =
  HttpClient http_Client
| LimitingClient http_Client "'f rate_Limiter"

definition rate_NewLimiter :: "'f \<Rightarrow> int \<Rightarrow> 'f rate_Limiter" where
  "rate_NewLimiter r b = \<lparr>limit = r, burst = b\<rparr>"

definition httpClient :: "('f::zero, 'a, 'k) config \<Rightarrow> 'f provider \<Rightarrow> 'f client" where
  "httpClient c p =
    (let client = \<lparr>Transport = None\<rparr>;
         client =
           (if provider.Insecure p \<noteq> None \<and> the (provider.Insecure p) \<or>
               Insecure c \<noteq> None \<and> the (Insecure c)
            then client\<lparr>Transport :=
                   Some \<lparr>TLSClientConfig = Some \<lparr>InsecureSkipVerify = True\<rparr>\<rparr>\<rparr>
            else client)
     in if provider.Rate p = None \<and> Rate c = None then HttpClient client
        else
          let r = 0;
              r = (if Rate c \<noteq> None then the (Rate c) else r);
              r = (if provider.Rate p \<noteq> None then the (provider.Rate p) else r)
          in LimitingClient client (rate_NewLimiter r 1))"

text \<open>The \<^verbatim>\<open>http.Client\<close> that does the requests of a client, and whether that one
  skips the verification of certificates: it does when it has a transport of its own
  whose TLS configuration sets \<^verbatim>\<open>InsecureSkipVerify\<close>; with no transport it uses the
  default one, which verifies.\<close>

definition plainClient :: "'f client \<Rightarrow> http_Client" where
  "plainClient cl = (case cl of HttpClient h \<Rightarrow> h | LimitingClient h l \<Rightarrow> h)"

definition skipsVerify :: "http_Client \<Rightarrow> bool" where
  "skipsVerify h =
    (case Transport h of
       None \<Rightarrow> False
     | Some t \<Rightarrow> (case TLSClientConfig t of None \<Rightarrow> False | Some cfg \<Rightarrow> InsecureSkipVerify cfg))"

subsection \<open>checkProviders, setDefaults, check, loadConfig\<close>

text \<open>The loop of \<open>checkProviders\<close>, from the map \<open>already\<close> it has built so far. A key
  that a Go \<^verbatim>\<open>map[string]bool\<close> does not hold reads as \<^verbatim>\<open>false\<close>.\<close>

definition apostrophe :: string where
  "apostrophe = [CHR 0x27]"

fun checkProviders_loop :: "(string \<rightharpoonup> bool) \<Rightarrow> 'f provider list \<Rightarrow> error option" where
  "checkProviders_loop already [] = None"
| "checkProviders_loop already (p # ps) =
     (if provider.Name p = [] then Some (Error ''no name given for provider'')
      else if provider.Domain p = [] then Some (Error ''no domain given for provider'')
      else if (case already (provider.Name p) of None \<Rightarrow> False | Some b \<Rightarrow> b)
        then Some (Error (''provider '' @ apostrophe @ provider.Name p @ apostrophe @
                          '' is configured more than once''))
      else checkProviders_loop (already(provider.Name p \<mapsto> True)) ps)"

definition checkProviders :: "('f, 'a, 'k) config \<Rightarrow> error option" where
  "checkProviders c = checkProviders_loop Map.empty (Providers c)"

text \<open>
  What the specification asks of one provider, given the providers declared before it: a
  name, else a domain, else a name that none of the earlier providers has. This is the
  specification's wording, to be compared with the loop above; the result is the error
  the specification names, \<open>None\<close> when the provider passes.
\<close>

definition providerFault :: "'f provider list \<Rightarrow> 'f provider \<Rightarrow> error option" where
  "providerFault earlier p =
     (if provider.Name p = [] then Some (Error ''no name given for provider'')
      else if provider.Domain p = [] then Some (Error ''no domain given for provider'')
      else if provider.Name p \<in> set (map provider.Name earlier)
        then Some (Error (''provider '' @ apostrophe @ provider.Name p @ apostrophe @
                          '' is configured more than once''))
      else None)"

text \<open>\<open>setDefaults\<close>, given what \<^verbatim>\<open>runtime.NumCPU()\<close> returns.\<close>

definition setDefaults :: "int \<Rightarrow> ('f, 'a, 'k) config \<Rightarrow> ('f, 'a, 'k) config" where
  "setDefaults runtime_NumCPU c =
    (let c = (if Folder c = [] then c\<lparr>Folder := defaultFolder\<rparr> else c);
         c = (if Web c = [] then c\<lparr>Web := defaultWeb\<rparr> else c);
         c = (if Domain c = [] then c\<lparr>Domain := defaultDomain\<rparr> else c);
         c = (if Workers c \<le> 0
              then (let n = runtime_NumCPU in
                    if n > defaultWorkers then c\<lparr>Workers := defaultWorkers\<rparr>
                    else c\<lparr>Workers := n\<rparr>)
              else c);
         c = (if Workers c > int (length (Providers c))
              then c\<lparr>Workers := int (length (Providers c))\<rparr>
              else c)
     in c)"

text \<open>\<open>check\<close>, given the method \<^verbatim>\<open>Validate\<close> of \<^verbatim>\<open>csaf.AggregatorInfo\<close>.\<close>

definition check :: "('a \<Rightarrow> error option) \<Rightarrow> ('f, 'a, 'k) config \<Rightarrow> error option" where
  "check Validate c =
    (if length (Providers c) = 0 then Some (Error ''no providers given in configuration'')
     else (case Validate (Aggregator c) of
             Some err \<Rightarrow> Some err
           | None \<Rightarrow> checkProviders c))"

text \<open>
  \<open>loadConfig\<close>, given \<^verbatim>\<open>toml.DecodeFile\<close> as the function from a path to either its
  error or the configuration it has filled in. The two results are Go's: the pointer to
  the configuration, nil being \<open>None\<close>, and the error.
\<close>

definition loadConfig ::
  "(string \<Rightarrow> error + ('f, 'a, 'k) config) \<Rightarrow> ('a \<Rightarrow> error option) \<Rightarrow> int \<Rightarrow> string \<Rightarrow>
     ('f, 'a, 'k) config option \<times> error option" where
  "loadConfig toml_DecodeFile Validate runtime_NumCPU path =
    (let path = (if path = [] then defaultConfigPath else path) in
     case toml_DecodeFile path of
       Inl err \<Rightarrow> (None, Some err)
     | Inr cfg \<Rightarrow>
         (let cfg = setDefaults runtime_NumCPU cfg in
          case check Validate cfg of
            Some err \<Rightarrow> (None, Some err)
          | None \<Rightarrow> (Some cfg, None)))"

subsection \<open>Concrete configurations and worlds\<close>

text \<open>The value of Go's \<^verbatim>\<open>var cfg config\<close>, with \<open>real\<close> for \<^verbatim>\<open>float64\<close>, no
  aggregator metadata and keys that are numbers.\<close>

definition zeroConfig :: "(real, unit, nat) config" where
  "zeroConfig =
     \<lparr>Workers = 0, Folder = [], Web = [], Domain = [], Rate = None, Insecure = None,
      Aggregator = (), Providers = [], Key = [], Passphrase = None,
      keyMu = False, key = None, keyErr = None\<rparr>"

definition namedProvider :: "string \<Rightarrow> real provider" where
  "namedProvider n =
     \<lparr>provider.Name = n, provider.Domain = ''example.org'',
      provider.Rate = None, provider.Insecure = None\<rparr>"

text \<open>A decoder that finds the given configuration at every path, and metadata that
  always validate.\<close>

definition decodesTo ::
  "(real, unit, nat) config \<Rightarrow> string \<Rightarrow> error + (real, unit, nat) config" where
  "decodesTo c path = Inr c"

definition validMetadata :: "unit \<Rightarrow> error option" where
  "validMetadata a = None"

text \<open>Three worlds: the key file opens and holds key 7; the key file does not open; the
  key file opens and does not parse.\<close>

definition keyWorld :: "(nat, nat) world" where
  "keyWorld =
     \<lparr>os_Open = (\<lambda>path. Inr 3),
      crypto_NewKeyFromArmoredReader = (\<lambda>f. (Some 7, None))\<rparr>"

definition noFileWorld :: "(nat, nat) world" where
  "noFileWorld =
     \<lparr>os_Open = (\<lambda>path. Inl (Error ''open: no such file or directory'')),
      crypto_NewKeyFromArmoredReader = (\<lambda>f. (Some 7, None))\<rparr>"


text \<open>A provider list that names \<open>a\<close> twice, and a provider with neither name nor
  domain.\<close>

definition repeatedProviders :: "real provider list" where
  "repeatedProviders = [namedProvider ''a'', namedProvider ''b'', namedProvider ''a'']"

definition blankProvider :: "real provider" where
  "blankProvider =
     \<lparr>provider.Name = [], provider.Domain = [],
      provider.Rate = None, provider.Insecure = None\<rparr>"

section \<open>Properties\<close>

subsection \<open>setDefaults\<close>

lemma setDefaults_frame:
  "setDefaults n c =
     c\<lparr>Folder := (if Folder c = [] then defaultFolder else Folder c),
       Web := (if Web c = [] then defaultWeb else Web c),
       Domain := (if Domain c = [] then defaultDomain else Domain c),
       Workers := min (if Workers c \<le> 0 then min n defaultWorkers else Workers c)
                      (int (length (Providers c)))\<rparr>"
  by (simp add: setDefaults_def Let_def min_def)

lemma setDefaults_Workers:
  "Workers (setDefaults n c) =
     min (if Workers c \<le> 0 then min n defaultWorkers else Workers c)
         (int (length (Providers c)))"
  by (simp add: setDefaults_frame)

lemma setDefaults_Providers: "Providers (setDefaults n c) = Providers c"
  by (simp add: setDefaults_frame)

lemma setDefaults_Folder:
  "Folder (setDefaults n c) = (if Folder c = [] then defaultFolder else Folder c)"
  by (simp add: setDefaults_frame)

lemma setDefaults_Web:
  "Web (setDefaults n c) = (if Web c = [] then defaultWeb else Web c)"
  by (simp add: setDefaults_frame)

lemma setDefaults_Domain:
  "Domain (setDefaults n c) = (if Domain c = [] then defaultDomain else Domain c)"
  by (simp add: setDefaults_frame)

text \<open>A configuration whose three strings are set and whose worker count is already
  the resolved one is left as it is.\<close>

lemma setDefaults_fixed:
  assumes "Folder c \<noteq> []" and "Web c \<noteq> []" and "Domain c \<noteq> []"
    and "Workers c = min (if Workers c \<le> 0 then min n defaultWorkers else Workers c)
                         (int (length (Providers c)))"
  shows "setDefaults n c = c"
proof -
  have "setDefaults n c =
          c\<lparr>Folder := Folder c, Web := Web c, Domain := Domain c, Workers := Workers c\<rparr>"
    using assms by (subst setDefaults_frame) simp
  then show ?thesis by simp
qed

text \<open>
  Claim C2. \<open>setDefaults\<close> resolves the worker count so: a count that is not positive
  is replaced by the minimum of the reported parallelism and 10; then the count, whichever
  of the two it is, is lowered to the number of providers when it exceeds it. With no
  providers it becomes 0 (the reported parallelism being positive, as
  \<^verbatim>\<open>runtime.NumCPU\<close> is). With no count given, parallelism 4 and 2 providers give 2,
  and parallelism 20 and 50 providers give 10; the count 100 and 3 providers give 3.
\<close>

theorem setDefaults_worker_count:
  "Workers (setDefaults n c) =
     min (if Workers c \<le> 0 then min n 10 else Workers c) (int (length (Providers c)))
   \<and> (0 < n \<and> Providers c = [] \<longrightarrow> Workers (setDefaults n c) = 0)
   \<and> (Workers c \<le> 0 \<and> length (Providers c) = 2 \<longrightarrow> Workers (setDefaults 4 c) = 2)
   \<and> (Workers c \<le> 0 \<and> length (Providers c) = 50 \<longrightarrow> Workers (setDefaults 20 c) = 10)
   \<and> (Workers c = 100 \<and> length (Providers c) = 3 \<longrightarrow> Workers (setDefaults n c) = 3)"
  by (simp add: setDefaults_Workers defaultWorkers_def)

theorem setDefaults_worker_count_witness:
  "(0 < (4::int) \<and> Providers zeroConfig = [] \<and> Workers (setDefaults 4 zeroConfig) = 0)
   \<and> (Workers zeroConfig \<le> 0
      \<and> length (Providers (zeroConfig\<lparr>Providers := [namedProvider ''a'', namedProvider ''b'']\<rparr>)) = 2
      \<and> Workers (setDefaults 4
           (zeroConfig\<lparr>Providers := [namedProvider ''a'', namedProvider ''b'']\<rparr>)) = 2)
   \<and> (length (Providers (zeroConfig\<lparr>Providers := replicate 50 (namedProvider ''a'')\<rparr>)) = 50
      \<and> Workers (setDefaults 20
           (zeroConfig\<lparr>Providers := replicate 50 (namedProvider ''a'')\<rparr>)) = 10)
   \<and> (Workers (zeroConfig\<lparr>Workers := 100, Providers := replicate 3 (namedProvider ''a'')\<rparr>) = 100
      \<and> Workers (setDefaults 1
           (zeroConfig\<lparr>Workers := 100, Providers := replicate 3 (namedProvider ''a'')\<rparr>)) = 3)"
  using setDefaults_worker_count [of 4 zeroConfig]
    setDefaults_worker_count
      [of 4 "zeroConfig\<lparr>Providers := [namedProvider ''a'', namedProvider ''b'']\<rparr>"]
    setDefaults_worker_count
      [of 20 "zeroConfig\<lparr>Providers := replicate 50 (namedProvider ''a'')\<rparr>"]
    setDefaults_worker_count
      [of 1 "zeroConfig\<lparr>Workers := 100, Providers := replicate 3 (namedProvider ''a'')\<rparr>"]
  by (simp add: zeroConfig_def)

text \<open>
  Claim C9. \<open>setDefaults\<close> is idempotent: with the same reported parallelism (a positive
  number, as \<^verbatim>\<open>runtime.NumCPU\<close> reports), a second application changes nothing, also
  when there are no providers and the worker count is 0.
\<close>

theorem setDefaults_idempotent:
  assumes "0 < n"
  shows "setDefaults n (setDefaults n c) = setDefaults n c"
proof (rule setDefaults_fixed)
  show "Folder (setDefaults n c) \<noteq> []"
    by (simp add: setDefaults_Folder defaultFolder_def)
  show "Web (setDefaults n c) \<noteq> []"
    by (simp add: setDefaults_Web defaultWeb_def)
  show "Domain (setDefaults n c) \<noteq> []"
    by (simp add: setDefaults_Domain defaultDomain_def)
  show "Workers (setDefaults n c) =
          min (if Workers (setDefaults n c) \<le> 0 then min n defaultWorkers
               else Workers (setDefaults n c))
              (int (length (Providers (setDefaults n c))))"
    using assms
    by (simp add: setDefaults_Workers setDefaults_Providers defaultWorkers_def min_def)
qed

theorem setDefaults_idempotent_witness:
  "0 < (4::int) \<and> Providers zeroConfig = []
   \<and> setDefaults 4 (setDefaults 4 zeroConfig) = setDefaults 4 zeroConfig"
  using setDefaults_idempotent [of 4 zeroConfig] by (simp add: zeroConfig_def)

text \<open>
  Claim C10. \<open>setDefaults\<close> changes at most the worker count, the folder, the web
  directory and the domain: the providers, the global rate, the global insecure flag, the
  aggregator metadata, the key path, the passphrase, and the mutex, key and error of the
  key cache are what they were.
\<close>

theorem setDefaults_changes_only:
  "(\<exists>w f b d. setDefaults n c = c\<lparr>Workers := w, Folder := f, Web := b, Domain := d\<rparr>)
   \<and> Providers (setDefaults n c) = Providers c
   \<and> Rate (setDefaults n c) = Rate c
   \<and> Insecure (setDefaults n c) = Insecure c
   \<and> Aggregator (setDefaults n c) = Aggregator c
   \<and> Key (setDefaults n c) = Key c
   \<and> Passphrase (setDefaults n c) = Passphrase c
   \<and> keyMu (setDefaults n c) = keyMu c
   \<and> key (setDefaults n c) = key c
   \<and> keyErr (setDefaults n c) = keyErr c"
proof -
  have "setDefaults n c =
          c\<lparr>Workers := min (if Workers c \<le> 0 then min n defaultWorkers else Workers c)
                            (int (length (Providers c))),
            Folder := (if Folder c = [] then defaultFolder else Folder c),
            Web := (if Web c = [] then defaultWeb else Web c),
            Domain := (if Domain c = [] then defaultDomain else Domain c)\<rparr>"
    by (subst setDefaults_frame) simp
  then have "\<exists>w f b d. setDefaults n c = c\<lparr>Workers := w, Folder := f, Web := b, Domain := d\<rparr>"
    by blast
  then show ?thesis by (simp add: setDefaults_frame)
qed

theorem setDefaults_changes_only_witness:
  "Providers (setDefaults 4 (zeroConfig\<lparr>Providers := [namedProvider ''a'']\<rparr>)) =
     [namedProvider ''a'']
   \<and> Key (setDefaults 4 (zeroConfig\<lparr>Key := ''key.asc''\<rparr>)) = ''key.asc''"
  using setDefaults_changes_only [of 4 "zeroConfig\<lparr>Providers := [namedProvider ''a'']\<rparr>"]
    setDefaults_changes_only [of 4 "zeroConfig\<lparr>Key := ''key.asc''\<rparr>"]
  by simp


subsection \<open>cryptoKey\<close>

lemma cryptoKey_no_path: "Key c = [] \<Longrightarrow> cryptoKey w c = Some ((None, None), c, [])"
  by (simp add: cryptoKey_def)

lemma cryptoKeyCalls_no_path:
  "Key c = [] \<Longrightarrow> cryptoKeyCalls ws c = Some (replicate (length ws) (None, None), c, [])"
  by (induction ws) (simp_all add: cryptoKey_no_path)










text \<open>
  Claim C8. With the empty key path, every call of \<open>cryptoKey\<close> returns \<open>(nil, nil)\<close>,
  also while the mutex is held; it has no event (it neither takes the mutex nor opens a
  file) and leaves the configuration as it is, so that after any number of calls an empty
  cache is still empty.
\<close>

theorem cryptoKey_without_path:
  "Key c = [] \<longrightarrow>
     cryptoKey w c = Some ((None, None), c, [])
     \<and> cryptoKeyCalls ws c = Some (replicate (length ws) (None, None), c, [])
     \<and> (\<forall>rs c' t. cryptoKeyCalls ws c = Some (rs, c', t) \<and> key c = None \<and> keyErr c = None \<longrightarrow>
          key c' = None \<and> keyErr c' = None)"
  by (simp add: cryptoKey_no_path cryptoKeyCalls_no_path)

theorem cryptoKey_without_path_witness:
  "Key (zeroConfig\<lparr>keyMu := True\<rparr>) = []
   \<and> cryptoKey keyWorld (zeroConfig\<lparr>keyMu := True\<rparr>) =
       Some ((None, None), zeroConfig\<lparr>keyMu := True\<rparr>, [])
   \<and> cryptoKeyCalls [keyWorld, noFileWorld] zeroConfig =
       Some ([(None, None), (None, None)], zeroConfig, [])
   \<and> key zeroConfig = None \<and> keyErr zeroConfig = None"
proof -
  have k1: "Key (zeroConfig\<lparr>keyMu := True\<rparr>) = []"
    by (simp add: zeroConfig_def)
  have k2: "Key zeroConfig = []"
    by (simp add: zeroConfig_def)
  note held =
    cryptoKey_without_path [of "zeroConfig\<lparr>keyMu := True\<rparr>" keyWorld "[]", THEN mp, OF k1]
  note calls =
    cryptoKey_without_path [of zeroConfig keyWorld "[keyWorld, noFileWorld]", THEN mp, OF k2]
  have "cryptoKey keyWorld (zeroConfig\<lparr>keyMu := True\<rparr>) =
          Some ((None, None), zeroConfig\<lparr>keyMu := True\<rparr>, [])"
    using held by blast
  moreover have "cryptoKeyCalls [keyWorld, noFileWorld] zeroConfig =
          Some ([(None, None), (None, None)], zeroConfig, [])"
    using calls by (simp del: cryptoKeyCalls.simps)
  moreover have "key zeroConfig = None \<and> keyErr zeroConfig = None"
    by (simp add: zeroConfig_def)
  ultimately show ?thesis
    using k1 by blast
qed


subsection \<open>httpClient\<close>

text \<open>The \<^verbatim>\<open>http.Client\<close> inside the result, whichever of the two clients wraps it.\<close>

lemma httpClient_plainClient:
  "plainClient (httpClient c p) =
     (if provider.Insecure p = Some True \<or> Insecure c = Some True
      then \<lparr>Transport = Some \<lparr>TLSClientConfig = Some \<lparr>InsecureSkipVerify = True\<rparr>\<rparr>\<rparr>
      else \<lparr>Transport = None\<rparr>)"
  by (cases "provider.Insecure p"; cases "Insecure c")
     (auto simp: httpClient_def plainClient_def Let_def)

lemma httpClient_no_rate:
  assumes "provider.Rate p = None" and "Rate c = None"
  shows "httpClient c p = HttpClient (plainClient (httpClient c p))"
  using assms by (simp add: httpClient_def plainClient_def Let_def)

lemma httpClient_provider_rate:
  assumes "provider.Rate p = Some r"
  shows "httpClient c p =
           LimitingClient (plainClient (httpClient c p)) \<lparr>limit = r, burst = 1\<rparr>"
  using assms by (simp add: httpClient_def plainClient_def rate_NewLimiter_def Let_def)

lemma httpClient_global_rate:
  assumes "provider.Rate p = None" and "Rate c = Some g"
  shows "httpClient c p =
           LimitingClient (plainClient (httpClient c p)) \<lparr>limit = g, burst = 1\<rparr>"
  using assms by (simp add: httpClient_def plainClient_def rate_NewLimiter_def Let_def)

text \<open>
  Claim C1. The client that \<open>httpClient\<close> returns skips the verification of
  certificates exactly when the insecure flag of the provider is set and true or the
  global insecure flag is set and true. So it does with the provider's flag false and the
  global flag true, with the provider's flag true and the global flag false, and with the
  provider's flag unset and the global flag true; with both flags unset it verifies.
\<close>

theorem httpClient_skips_verification:
  "skipsVerify (plainClient (httpClient c p)) =
     (provider.Insecure p = Some True \<or> Insecure c = Some True)
   \<and> (provider.Insecure p = Some False \<and> Insecure c = Some True \<longrightarrow>
        skipsVerify (plainClient (httpClient c p)))
   \<and> (provider.Insecure p = Some True \<and> Insecure c = Some False \<longrightarrow>
        skipsVerify (plainClient (httpClient c p)))
   \<and> (provider.Insecure p = None \<and> Insecure c = Some True \<longrightarrow>
        skipsVerify (plainClient (httpClient c p)))
   \<and> (provider.Insecure p = None \<and> Insecure c = None \<longrightarrow>
        \<not> skipsVerify (plainClient (httpClient c p))
        \<and> plainClient (httpClient c p) = \<lparr>Transport = None\<rparr>)"
  by (simp add: httpClient_plainClient skipsVerify_def)

theorem httpClient_skips_verification_witness:
  "provider.Insecure ((namedProvider ''a'')\<lparr>provider.Insecure := Some False\<rparr>) = Some False
   \<and> Insecure (zeroConfig\<lparr>Insecure := Some True\<rparr>) = Some True
   \<and> skipsVerify (plainClient (httpClient (zeroConfig\<lparr>Insecure := Some True\<rparr>)
        ((namedProvider ''a'')\<lparr>provider.Insecure := Some False\<rparr>)))
   \<and> skipsVerify (plainClient (httpClient (zeroConfig\<lparr>Insecure := Some False\<rparr>)
        ((namedProvider ''a'')\<lparr>provider.Insecure := Some True\<rparr>)))
   \<and> skipsVerify (plainClient (httpClient (zeroConfig\<lparr>Insecure := Some True\<rparr>)
        (namedProvider ''a'')))
   \<and> provider.Insecure (namedProvider ''a'') = None \<and> Insecure zeroConfig = None
   \<and> \<not> skipsVerify (plainClient (httpClient zeroConfig (namedProvider ''a'')))"
proof -
  have unset: "provider.Insecure (namedProvider ''a'') = None" "Insecure zeroConfig = None"
    by (simp_all add: namedProvider_def zeroConfig_def)
  show ?thesis
    using httpClient_skips_verification
      [of "zeroConfig\<lparr>Insecure := Some True\<rparr>"
          "(namedProvider ''a'')\<lparr>provider.Insecure := Some False\<rparr>"]
    httpClient_skips_verification
      [of "zeroConfig\<lparr>Insecure := Some False\<rparr>"
          "(namedProvider ''a'')\<lparr>provider.Insecure := Some True\<rparr>"]
    httpClient_skips_verification
      [of "zeroConfig\<lparr>Insecure := Some True\<rparr>" "namedProvider ''a''"]
    httpClient_skips_verification [of zeroConfig "namedProvider ''a''"]
    by (simp add: unset skipsVerify_def)
qed

text \<open>
  Claim C6. With neither the provider's rate nor the global rate set, \<open>httpClient\<close>
  returns the plain client itself. Otherwise it returns a limiting client around that same
  plain client, whose limiter has burst 1 and as its rate the provider's rate when that
  is set, and the global rate otherwise.
\<close>

theorem httpClient_rate_limit:
  "(provider.Rate p = None \<and> Rate c = None \<longrightarrow>
      httpClient c p = HttpClient (plainClient (httpClient c p)))
   \<and> (provider.Rate p = Some r \<longrightarrow>
      httpClient c p = LimitingClient (plainClient (httpClient c p)) \<lparr>limit = r, burst = 1\<rparr>)
   \<and> (provider.Rate p = None \<and> Rate c = Some g \<longrightarrow>
      httpClient c p = LimitingClient (plainClient (httpClient c p)) \<lparr>limit = g, burst = 1\<rparr>)
   \<and> plainClient (httpClient c p) =
       plainClient (httpClient (c\<lparr>Rate := None\<rparr>) (p\<lparr>provider.Rate := None\<rparr>))"
proof (intro conjI impI)
  assume "provider.Rate p = None \<and> Rate c = None"
  then show "httpClient c p = HttpClient (plainClient (httpClient c p))"
    using httpClient_no_rate [of p c] by blast
next
  assume "provider.Rate p = Some r"
  then show "httpClient c p =
      LimitingClient (plainClient (httpClient c p)) \<lparr>limit = r, burst = 1\<rparr>"
    by (rule httpClient_provider_rate)
next
  assume "provider.Rate p = None \<and> Rate c = Some g"
  then show "httpClient c p =
      LimitingClient (plainClient (httpClient c p)) \<lparr>limit = g, burst = 1\<rparr>"
    using httpClient_global_rate [of p c g] by blast
next
  show "plainClient (httpClient c p) =
      plainClient (httpClient (c\<lparr>Rate := None\<rparr>) (p\<lparr>provider.Rate := None\<rparr>))"
    by (simp add: httpClient_plainClient)
qed

theorem httpClient_rate_limit_witness:
  "provider.Rate (namedProvider ''a'') = None \<and> Rate zeroConfig = None
   \<and> httpClient zeroConfig (namedProvider ''a'') = HttpClient \<lparr>Transport = None\<rparr>
   \<and> provider.Rate ((namedProvider ''a'')\<lparr>provider.Rate := Some 5\<rparr>) = Some 5
   \<and> httpClient (zeroConfig\<lparr>Rate := Some 1\<rparr>) ((namedProvider ''a'')\<lparr>provider.Rate := Some 5\<rparr>) =
       LimitingClient \<lparr>Transport = None\<rparr> \<lparr>limit = 5, burst = 1\<rparr>
   \<and> Rate (zeroConfig\<lparr>Rate := Some 2\<rparr>) = Some 2
   \<and> httpClient (zeroConfig\<lparr>Rate := Some 2\<rparr>) (namedProvider ''a'') =
       LimitingClient \<lparr>Transport = None\<rparr> \<lparr>limit = 2, burst = 1\<rparr>"
proof -
  have unset: "provider.Rate (namedProvider ''a'') = None" "Rate zeroConfig = None"
    "provider.Insecure (namedProvider ''a'') = None" "Insecure zeroConfig = None"
    by (simp_all add: namedProvider_def zeroConfig_def)
  have plain: "plainClient (httpClient (zeroConfig\<lparr>Rate := x\<rparr>)
                  ((namedProvider ''a'')\<lparr>provider.Rate := y\<rparr>)) = \<lparr>Transport = None\<rparr>" for x y
    by (simp add: httpClient_plainClient unset)
  have plain0: "plainClient (httpClient zeroConfig (namedProvider ''a'')) = \<lparr>Transport = None\<rparr>"
    by (simp add: httpClient_plainClient unset)
  have plain2: "plainClient (httpClient (zeroConfig\<lparr>Rate := x\<rparr>) (namedProvider ''a'')) =
                  \<lparr>Transport = None\<rparr>" for x
    by (simp add: httpClient_plainClient unset)
  show ?thesis
    using httpClient_rate_limit [of "namedProvider ''a''" zeroConfig]
      httpClient_rate_limit
        [of "(namedProvider ''a'')\<lparr>provider.Rate := Some 5\<rparr>" "zeroConfig\<lparr>Rate := Some 1\<rparr>" 5]
      httpClient_rate_limit [of "namedProvider ''a''" "zeroConfig\<lparr>Rate := Some 2\<rparr>" _ 2]
    by (simp add: plain plain0 plain2 unset)
qed


subsection \<open>checkProviders\<close>

text \<open>The map \<open>already\<close> holds the names of the providers in \<open>pre\<close>, and no others.\<close>

lemma checkProviders_loop_step:
  assumes "\<forall>n. (case already n of None \<Rightarrow> False | Some b \<Rightarrow> b) = (n \<in> set (map provider.Name pre))"
  shows "checkProviders_loop already (p # ps) =
           (case providerFault pre p of
              Some e \<Rightarrow> Some e
            | None \<Rightarrow> checkProviders_loop (already(provider.Name p \<mapsto> True)) ps)"
  using assms by (simp add: providerFault_def)

lemma already_update:
  assumes "\<forall>n. (case already n of None \<Rightarrow> False | Some b \<Rightarrow> b) = (n \<in> set (map provider.Name pre))"
  shows "\<forall>n. (case (already(provider.Name p \<mapsto> True)) n of None \<Rightarrow> False | Some b \<Rightarrow> b) =
              (n \<in> set (map provider.Name (pre @ [p])))"
  using assms by auto

lemma checkProviders_loop_passes:
  assumes "\<forall>n. (case already n of None \<Rightarrow> False | Some b \<Rightarrow> b) = (n \<in> set (map provider.Name pre))"
    and "\<forall>i<length ps. providerFault (pre @ take i ps) (ps ! i) = None"
  shows "checkProviders_loop already ps = None"
  using assms
proof (induction ps arbitrary: already pre)
  case Nil
  show ?case by simp
next
  case (Cons p ps)
  from Cons.prems(2) have "providerFault (pre @ take 0 (p # ps)) ((p # ps) ! 0) = None"
    by blast
  then have here: "providerFault pre p = None"
    by simp
  have later: "\<forall>i<length ps. providerFault ((pre @ [p]) @ take i ps) (ps ! i) = None"
  proof (intro allI impI)
    fix i assume "i < length ps"
    then have "providerFault (pre @ take (Suc i) (p # ps)) ((p # ps) ! Suc i) = None"
      using Cons.prems(2) by auto
    then show "providerFault ((pre @ [p]) @ take i ps) (ps ! i) = None"
      by simp
  qed
  have "checkProviders_loop (already(provider.Name p \<mapsto> True)) ps = None"
    by (rule Cons.IH [OF already_update [OF Cons.prems(1)] later])
  then show ?case
    using checkProviders_loop_step [OF Cons.prems(1), of p ps] here
    by (simp del: checkProviders_loop.simps)
qed

lemma checkProviders_loop_first_fault:
  assumes "\<forall>n. (case already n of None \<Rightarrow> False | Some b \<Rightarrow> b) = (n \<in> set (map provider.Name pre))"
    and "i < length ps"
    and "providerFault (pre @ take i ps) (ps ! i) = Some e"
    and "\<forall>j<i. providerFault (pre @ take j ps) (ps ! j) = None"
  shows "checkProviders_loop already ps = Some e"
  using assms
proof (induction ps arbitrary: already pre i)
  case Nil
  then show ?case by simp
next
  case (Cons p ps)
  show ?case
  proof (cases i)
    case 0
    with Cons.prems(3) have "providerFault pre p = Some e"
      by simp
    then show ?thesis
      using checkProviders_loop_step [OF Cons.prems(1), of p ps]
      by (simp del: checkProviders_loop.simps)
  next
    case (Suc k)
    from Cons.prems(4) Suc have "providerFault (pre @ take 0 (p # ps)) ((p # ps) ! 0) = None"
      by blast
    then have here: "providerFault pre p = None"
      by simp
    have k: "k < length ps"
      using Cons.prems(2) Suc by simp
    have fault: "providerFault ((pre @ [p]) @ take k ps) (ps ! k) = Some e"
      using Cons.prems(3) Suc by simp
    have before: "\<forall>j<k. providerFault ((pre @ [p]) @ take j ps) (ps ! j) = None"
    proof (intro allI impI)
      fix j assume "j < k"
      then have "providerFault (pre @ take (Suc j) (p # ps)) ((p # ps) ! Suc j) = None"
        using Cons.prems(4) Suc by auto
      then show "providerFault ((pre @ [p]) @ take j ps) (ps ! j) = None"
        by simp
    qed
    have "checkProviders_loop (already(provider.Name p \<mapsto> True)) ps = Some e"
      by (rule Cons.IH [OF already_update [OF Cons.prems(1)] k fault before])
    then show ?thesis
      using checkProviders_loop_step [OF Cons.prems(1), of p ps] here
      by (simp del: checkProviders_loop.simps)
  qed
qed

lemma checkProviders_passes:
  assumes "\<forall>i<length (Providers c). providerFault (take i (Providers c)) (Providers c ! i) = None"
  shows "checkProviders c = None"
  unfolding checkProviders_def
  using checkProviders_loop_passes [of Map.empty "[]" "Providers c"] assms by simp

lemma checkProviders_first_fault:
  assumes "i < length (Providers c)"
    and "providerFault (take i (Providers c)) (Providers c ! i) = Some e"
    and "\<forall>j<i. providerFault (take j (Providers c)) (Providers c ! j) = None"
  shows "checkProviders c = Some e"
  unfolding checkProviders_def
  using checkProviders_loop_first_fault [of Map.empty "[]" i "Providers c" e] assms by simp

lemma providerFault_duplicate:
  assumes "j < i" and "i < length ps"
    and "provider.Name (ps ! j) = provider.Name (ps ! i)"
    and "provider.Name (ps ! i) \<noteq> []" and "provider.Domain (ps ! i) \<noteq> []"
  shows "providerFault (take i ps) (ps ! i) =
           Some (Error (''provider '' @ apostrophe @ provider.Name (ps ! i) @ apostrophe @
                        '' is configured more than once''))"
proof -
  have "ps ! j \<in> set (take i ps)"
    using assms(1,2) by (metis in_set_conv_nth length_take min.absorb2 nth_take order_less_imp_le)
  then have "provider.Name (ps ! j) \<in> provider.Name ` set (take i ps)"
    by (rule imageI)
  then have "provider.Name (ps ! i) \<in> set (map provider.Name (take i ps))"
    using assms(3) by simp
  then show ?thesis
    using assms(4,5) by (simp add: providerFault_def)
qed

text \<open>
  Claim C4. \<open>checkProviders\<close> goes through the providers in the order of the list and
  returns the first failure: it returns no error when every provider passes, and when
  provider \<open>i\<close> is the first that does not pass it returns that provider's error, which
  is "no name given for provider" for an empty name, else "no domain given for provider"
  for an empty domain, else "provider '<name>' is configured more than once" for a name
  that an earlier provider has. So of two providers with one name the later one is
  reported, and a provider with neither name nor domain is reported for its name.
\<close>

theorem checkProviders_first_failure:
  "((\<forall>i<length (Providers c).
        providerFault (take i (Providers c)) (Providers c ! i) = None) \<longrightarrow>
      checkProviders c = None)
   \<and> (i < length (Providers c)
       \<and> providerFault (take i (Providers c)) (Providers c ! i) = Some e
       \<and> (\<forall>j<i. providerFault (take j (Providers c)) (Providers c ! j) = None) \<longrightarrow>
      checkProviders c = Some e)
   \<and> (j < i \<and> i < length (Providers c)
       \<and> provider.Name (Providers c ! j) = provider.Name (Providers c ! i)
       \<and> provider.Name (Providers c ! i) \<noteq> [] \<and> provider.Domain (Providers c ! i) \<noteq> []
       \<and> (\<forall>l<i. providerFault (take l (Providers c)) (Providers c ! l) = None) \<longrightarrow>
      checkProviders c =
        Some (Error (''provider '' @ apostrophe @ provider.Name (Providers c ! i) @ apostrophe @
                     '' is configured more than once'')))
   \<and> (i < length (Providers c) \<and> provider.Name (Providers c ! i) = []
       \<and> (\<forall>l<i. providerFault (take l (Providers c)) (Providers c ! l) = None) \<longrightarrow>
      checkProviders c = Some (Error ''no name given for provider''))
   \<and> (i < length (Providers c) \<and> provider.Name (Providers c ! i) \<noteq> []
       \<and> provider.Domain (Providers c ! i) = []
       \<and> (\<forall>l<i. providerFault (take l (Providers c)) (Providers c ! l) = None) \<longrightarrow>
      checkProviders c = Some (Error ''no domain given for provider''))"
proof (intro conjI impI)
  assume "\<forall>i<length (Providers c).
            providerFault (take i (Providers c)) (Providers c ! i) = None"
  then show "checkProviders c = None"
    by (rule checkProviders_passes)
next
  assume "i < length (Providers c)
       \<and> providerFault (take i (Providers c)) (Providers c ! i) = Some e
       \<and> (\<forall>j<i. providerFault (take j (Providers c)) (Providers c ! j) = None)"
  then show "checkProviders c = Some e"
    using checkProviders_first_fault [of i c e] by blast
next
  assume a: "j < i \<and> i < length (Providers c)
       \<and> provider.Name (Providers c ! j) = provider.Name (Providers c ! i)
       \<and> provider.Name (Providers c ! i) \<noteq> [] \<and> provider.Domain (Providers c ! i) \<noteq> []
       \<and> (\<forall>l<i. providerFault (take l (Providers c)) (Providers c ! l) = None)"
  then have "providerFault (take i (Providers c)) (Providers c ! i) =
      Some (Error (''provider '' @ apostrophe @ provider.Name (Providers c ! i) @ apostrophe @
                   '' is configured more than once''))"
    using providerFault_duplicate [of j i "Providers c"] by blast
  with a show "checkProviders c =
      Some (Error (''provider '' @ apostrophe @ provider.Name (Providers c ! i) @ apostrophe @
                   '' is configured more than once''))"
    using checkProviders_first_fault [of i c] by blast
next
  assume a: "i < length (Providers c) \<and> provider.Name (Providers c ! i) = []
       \<and> (\<forall>l<i. providerFault (take l (Providers c)) (Providers c ! l) = None)"
  then have "providerFault (take i (Providers c)) (Providers c ! i) =
      Some (Error ''no name given for provider'')"
    by (simp add: providerFault_def)
  with a show "checkProviders c = Some (Error ''no name given for provider'')"
    using checkProviders_first_fault [of i c] by blast
next
  assume a: "i < length (Providers c) \<and> provider.Name (Providers c ! i) \<noteq> []
       \<and> provider.Domain (Providers c ! i) = []
       \<and> (\<forall>l<i. providerFault (take l (Providers c)) (Providers c ! l) = None)"
  then have "providerFault (take i (Providers c)) (Providers c ! i) =
      Some (Error ''no domain given for provider'')"
    by (simp add: providerFault_def)
  with a show "checkProviders c = Some (Error ''no domain given for provider'')"
    using checkProviders_first_fault [of i c] by blast
qed

theorem checkProviders_first_failure_witness:
  "(0::nat) < 2 \<and> 2 < length (Providers (zeroConfig\<lparr>Providers := repeatedProviders\<rparr>))
   \<and> provider.Name (repeatedProviders ! 0) = provider.Name (repeatedProviders ! 2)
   \<and> provider.Name (repeatedProviders ! 2) \<noteq> []
   \<and> provider.Domain (repeatedProviders ! 2) \<noteq> []
   \<and> providerFault (take 0 repeatedProviders) (repeatedProviders ! 0) = None
   \<and> providerFault (take 1 repeatedProviders) (repeatedProviders ! 1) = None
   \<and> checkProviders (zeroConfig\<lparr>Providers := repeatedProviders\<rparr>) =
       Some (Error (''provider '' @ apostrophe @ ''a'' @ apostrophe @
                    '' is configured more than once''))
   \<and> provider.Name ([namedProvider ''a'', blankProvider] ! 1) = []
   \<and> checkProviders (zeroConfig\<lparr>Providers := [namedProvider ''a'', blankProvider]\<rparr>) =
       Some (Error ''no name given for provider'')
   \<and> checkProviders (zeroConfig\<lparr>Providers := [namedProvider ''a'', namedProvider ''b'']\<rparr>) =
       None"
proof -
  have two: "(\<forall>l<2. P l) = (P 0 \<and> P 1)" for P :: "nat \<Rightarrow> bool"
    by (auto simp: less_2_cases_iff)
  have one: "(\<forall>l<1. P l) = P 0" for P :: "nat \<Rightarrow> bool"
    by simp
  have names: "provider.Name (repeatedProviders ! 0) = ''a''"
    "provider.Name (repeatedProviders ! 2) = ''a''"
    "provider.Domain (repeatedProviders ! 2) = ''example.org''"
    by (simp_all add: repeatedProviders_def namedProvider_def)
  have p0: "providerFault (take 0 repeatedProviders) (repeatedProviders ! 0) = None"
    by (simp add: repeatedProviders_def namedProvider_def providerFault_def)
  have p1: "providerFault (take 1 repeatedProviders) (repeatedProviders ! 1) = None"
    by (simp add: repeatedProviders_def namedProvider_def providerFault_def)
  have before: "\<forall>l<2. providerFault (take l repeatedProviders) (repeatedProviders ! l) = None"
    unfolding two using p0 p1 by blast
  have len: "length repeatedProviders = 3"
    by (simp add: repeatedProviders_def)
  have dup: "checkProviders (zeroConfig\<lparr>Providers := repeatedProviders\<rparr>) =
       Some (Error (''provider '' @ apostrophe @ ''a'' @ apostrophe @
                    '' is configured more than once''))"
    using checkProviders_first_failure
            [of "zeroConfig\<lparr>Providers := repeatedProviders\<rparr>" 2 _ 0]
      names before len
    by simp
  have q0: "providerFault (take 0 [namedProvider ''a'', blankProvider])
              ([namedProvider ''a'', blankProvider] ! 0) = None"
    by (simp add: namedProvider_def providerFault_def)
  have blank: "provider.Name ([namedProvider ''a'', blankProvider] ! 1) = []"
    by (simp add: blankProvider_def)
  have "\<forall>l<1. providerFault (take l [namedProvider ''a'', blankProvider])
              ([namedProvider ''a'', blankProvider] ! l) = None"
    unfolding one using q0 by blast
  then have noname:
    "checkProviders (zeroConfig\<lparr>Providers := [namedProvider ''a'', blankProvider]\<rparr>) =
       Some (Error ''no name given for provider'')"
    using checkProviders_first_failure
            [of "zeroConfig\<lparr>Providers := [namedProvider ''a'', blankProvider]\<rparr>" 1]
      blank
    by simp
  have r0: "providerFault (take 0 [namedProvider ''a'', namedProvider ''b''])
              ([namedProvider ''a'', namedProvider ''b''] ! 0) = None"
    by (simp add: namedProvider_def providerFault_def)
  have r1: "providerFault (take 1 [namedProvider ''a'', namedProvider ''b''])
              ([namedProvider ''a'', namedProvider ''b''] ! 1) = None"
    by (simp add: namedProvider_def providerFault_def)
  have "\<forall>l<2. providerFault (take l [namedProvider ''a'', namedProvider ''b''])
              ([namedProvider ''a'', namedProvider ''b''] ! l) = None"
    unfolding two using r0 r1 by blast
  then have ok:
    "checkProviders (zeroConfig\<lparr>Providers := [namedProvider ''a'', namedProvider ''b'']\<rparr>) =
       None"
    using checkProviders_first_failure
            [of "zeroConfig\<lparr>Providers := [namedProvider ''a'', namedProvider ''b'']\<rparr>"]
    by simp
  show ?thesis
    using names p0 p1 len dup blank noname ok by simp
qed


subsection \<open>check and loadConfig\<close>

lemma check_no_providers:
  "Providers c = [] \<Longrightarrow> check Validate c = Some (Error ''no providers given in configuration'')"
  by (simp add: check_def)

lemma check_passes:
  assumes "check Validate c = None"
  shows "Providers c \<noteq> []"
  using assms by (auto simp: check_def)

lemma loadConfig_decoded:
  assumes "toml_DecodeFile (if path = [] then defaultConfigPath else path) = Inr cfg"
  shows "loadConfig toml_DecodeFile Validate n path =
           (case check Validate (setDefaults n cfg) of
              Some err \<Rightarrow> (None, Some err)
            | None \<Rightarrow> (Some (setDefaults n cfg), None))"
  using assms by (simp add: loadConfig_def Let_def)

lemma loadConfig_not_decoded:
  assumes "toml_DecodeFile (if path = [] then defaultConfigPath else path) = Inl err"
  shows "loadConfig toml_DecodeFile Validate n path = (None, Some err)"
  using assms by (simp add: loadConfig_def Let_def)

text \<open>A load without error returns a configuration that \<open>setDefaults\<close> has resolved and
  that \<open>check\<close> accepts.\<close>

lemma loadConfig_success:
  assumes "loadConfig toml_DecodeFile Validate n path = (r, None)"
  shows "\<exists>cfg. r = Some (setDefaults n cfg) \<and> check Validate (setDefaults n cfg) = None"
proof (cases "toml_DecodeFile (if path = [] then defaultConfigPath else path)")
  case (Inl err)
  then show ?thesis
    using assms by (simp add: loadConfig_not_decoded)
next
  case (Inr cfg)
  then show ?thesis
    using assms by (auto simp: loadConfig_decoded split: option.splits)
qed

lemma loadConfig_failure:
  assumes "loadConfig toml_DecodeFile Validate n path = (r, Some err)"
  shows "r = None"
proof (cases "toml_DecodeFile (if path = [] then defaultConfigPath else path)")
  case (Inl err')
  then show ?thesis
    using assms by (simp add: loadConfig_not_decoded)
next
  case (Inr cfg)
  then show ?thesis
    using assms by (auto simp: loadConfig_decoded split: option.splits)
qed

text \<open>
  Claim C5 as it is stated gives the message of the error as "no providers given". The
  message of the code is "no providers given in configuration": for a decoded
  configuration without providers \<open>loadConfig\<close> returns that error, which is not the
  one the claim names.
\<close>

theorem loadConfig_no_providers_message_differs:
  "loadConfig (decodesTo zeroConfig) validMetadata 4 ''aggregator.toml'' =
     (None, Some (Error ''no providers given in configuration''))
   \<and> loadConfig (decodesTo zeroConfig) validMetadata 4 ''aggregator.toml'' \<noteq>
     (None, Some (Error ''no providers given''))"
  by (simp add: loadConfig_def decodesTo_def check_def setDefaults_Providers zeroConfig_def)

text \<open>
  Claim C5, with the message of the code. A decoded configuration without providers makes
  \<open>loadConfig\<close> return no configuration and the error "no providers given in
  configuration". \<open>check\<close> returns that error whatever the validation of the metadata
  would answer; only with providers present does it return the error of the metadata, and
  only without one the result of \<open>checkProviders\<close>. Whenever \<open>loadConfig\<close> returns an
  error, the decoder's or the one \<open>check\<close> returns, it returns no configuration with it.
\<close>

theorem loadConfig_no_providers:
  "(toml_DecodeFile (if path = [] then defaultConfigPath else path) = Inr cfg
      \<and> Providers cfg = [] \<longrightarrow>
      loadConfig toml_DecodeFile Validate n path =
        (None, Some (Error ''no providers given in configuration'')))
   \<and> (Providers c = [] \<longrightarrow>
      check Validate c = Some (Error ''no providers given in configuration''))
   \<and> (Providers c \<noteq> [] \<and> Validate (Aggregator c) = Some err \<longrightarrow> check Validate c = Some err)
   \<and> (Providers c \<noteq> [] \<and> Validate (Aggregator c) = None \<longrightarrow>
      check Validate c = checkProviders c)
   \<and> (toml_DecodeFile (if path = [] then defaultConfigPath else path) = Inl err \<longrightarrow>
      loadConfig toml_DecodeFile Validate n path = (None, Some err))
   \<and> (toml_DecodeFile (if path = [] then defaultConfigPath else path) = Inr cfg
      \<and> check Validate (setDefaults n cfg) = Some err \<longrightarrow>
      loadConfig toml_DecodeFile Validate n path = (None, Some err))
   \<and> (loadConfig toml_DecodeFile Validate n path = (r, Some err) \<longrightarrow> r = None)"
proof (intro conjI impI)
  assume a: "toml_DecodeFile (if path = [] then defaultConfigPath else path) = Inr cfg
      \<and> Providers cfg = []"
  then have "check Validate (setDefaults n cfg) =
      Some (Error ''no providers given in configuration'')"
    by (simp add: check_no_providers setDefaults_Providers)
  with a show "loadConfig toml_DecodeFile Validate n path =
      (None, Some (Error ''no providers given in configuration''))"
    using loadConfig_decoded [of toml_DecodeFile path cfg Validate n] by simp
next
  assume "Providers c = []"
  then show "check Validate c = Some (Error ''no providers given in configuration'')"
    by (rule check_no_providers)
next
  assume "Providers c \<noteq> [] \<and> Validate (Aggregator c) = Some err"
  then show "check Validate c = Some err"
    by (simp add: check_def)
next
  assume "Providers c \<noteq> [] \<and> Validate (Aggregator c) = None"
  then show "check Validate c = checkProviders c"
    by (simp add: check_def)
next
  assume "toml_DecodeFile (if path = [] then defaultConfigPath else path) = Inl err"
  then show "loadConfig toml_DecodeFile Validate n path = (None, Some err)"
    by (rule loadConfig_not_decoded)
next
  assume "toml_DecodeFile (if path = [] then defaultConfigPath else path) = Inr cfg
      \<and> check Validate (setDefaults n cfg) = Some err"
  then show "loadConfig toml_DecodeFile Validate n path = (None, Some err)"
    using loadConfig_decoded [of toml_DecodeFile path cfg Validate n] by simp
next
  assume "loadConfig toml_DecodeFile Validate n path = (r, Some err)"
  then show "r = None"
    by (rule loadConfig_failure)
qed

theorem loadConfig_no_providers_witness:
  "decodesTo zeroConfig (if [] = [] then defaultConfigPath else []) = Inr zeroConfig
   \<and> Providers zeroConfig = []
   \<and> loadConfig (decodesTo zeroConfig) validMetadata 4 [] =
       (None, Some (Error ''no providers given in configuration''))"
proof -
  have decoded: "decodesTo zeroConfig (if [] = [] then defaultConfigPath else []) = Inr zeroConfig"
    by (simp add: decodesTo_def)
  have none: "Providers zeroConfig = []"
    by (simp add: zeroConfig_def)
  show ?thesis
    using loadConfig_no_providers
            [of "decodesTo zeroConfig" "[]" zeroConfig validMetadata 4 zeroConfig
                "Error ''no providers given in configuration''" None]
      decoded none
    by simp
qed

text \<open>
  Claim C7. In every configuration that \<open>loadConfig\<close> returns without an error, the
  worker count is at least 1 and at most the number of providers (the reported
  parallelism being positive, as \<^verbatim>\<open>runtime.NumCPU\<close> is).
\<close>

theorem loadConfig_worker_count_bounds:
  assumes "0 < n" and "loadConfig toml_DecodeFile Validate n path = (r, None)"
  shows "\<exists>c. r = Some c \<and> 1 \<le> Workers c \<and> Workers c \<le> int (length (Providers c))"
proof -
  from assms(2) obtain cfg where r: "r = Some (setDefaults n cfg)"
    and ok: "check Validate (setDefaults n cfg) = None"
    using loadConfig_success by blast
  from ok have "Providers (setDefaults n cfg) \<noteq> []"
    by (rule check_passes)
  then have "1 \<le> int (length (Providers cfg))"
    by (cases "Providers cfg") (simp_all add: setDefaults_Providers)
  then have "1 \<le> Workers (setDefaults n cfg)
      \<and> Workers (setDefaults n cfg) \<le> int (length (Providers (setDefaults n cfg)))"
    using assms(1) by (simp add: setDefaults_Workers setDefaults_Providers defaultWorkers_def)
  with r show ?thesis by blast
qed

theorem loadConfig_worker_count_bounds_witness:
  "0 < (4::int)
   \<and> loadConfig (decodesTo (zeroConfig\<lparr>Providers := [namedProvider ''a'', namedProvider ''b'']\<rparr>))
        validMetadata 4 [] =
       (Some (setDefaults 4 (zeroConfig\<lparr>Providers := [namedProvider ''a'', namedProvider ''b'']\<rparr>)),
        None)
   \<and> 1 \<le> Workers
        (setDefaults 4 (zeroConfig\<lparr>Providers := [namedProvider ''a'', namedProvider ''b'']\<rparr>))
   \<and> Workers
        (setDefaults 4 (zeroConfig\<lparr>Providers := [namedProvider ''a'', namedProvider ''b'']\<rparr>))
       \<le> int (length (Providers
        (setDefaults 4 (zeroConfig\<lparr>Providers := [namedProvider ''a'', namedProvider ''b'']\<rparr>))))"
proof -
  have checked: "check validMetadata
      (setDefaults 4 (zeroConfig\<lparr>Providers := [namedProvider ''a'', namedProvider ''b'']\<rparr>)) = None"
    by (simp add: check_def checkProviders_def setDefaults_Providers validMetadata_def
        namedProvider_def)
  have loaded: "loadConfig
      (decodesTo (zeroConfig\<lparr>Providers := [namedProvider ''a'', namedProvider ''b'']\<rparr>))
      validMetadata 4 [] =
      (Some (setDefaults 4 (zeroConfig\<lparr>Providers := [namedProvider ''a'', namedProvider ''b'']\<rparr>)),
       None)"
    by (simp add: loadConfig_def decodesTo_def checked)
  have "\<exists>c. Some (setDefaults 4
               (zeroConfig\<lparr>Providers := [namedProvider ''a'', namedProvider ''b'']\<rparr>)) = Some c
           \<and> 1 \<le> Workers c \<and> Workers c \<le> int (length (Providers c))"
    using loadConfig_worker_count_bounds [OF _ loaded] by simp
  then show ?thesis
    using loaded by simp
qed


end
